theory Spec2Isabelle
  imports Complex_Main "HOL-Library.Word"
begin

section \<open>Run orchestration of the SASA probe analysis (sasa\_main.py)\<close>

text \<open>
  The theory embeds the class \<open>Sasa\<close> of \<open>src/sasa_lammps/sasa_main.py\<close>: the
  worker function \<open>_run_lmp\<close>, the baseline computation \<open>_pre_calc\<close>, the scheduler
  \<open>_exec_lammps_iterations\<close> and the driver \<open>_process\<close>. Python names lose their
  leading underscore. Every function is a state transformer on a \<open>world\<close>: the object
  \<open>self\<close>, the trace of the actions the executing process performs on its environment,
  and the files that process has written. An exception is the \<open>Inl\<close> branch of the
  result.

  Python floats are carried as \<open>real\<close>: the only arithmetic of the file is
  \<open>0.0 + 1.0\<close>, which is exact. The helpers imported from \<open>sasa_lammps.helper\<close>,
  \<open>sasa_lammps.conversion\<close>, \<open>sasa_lammps.postprocessing\<close> and the values of
  \<open>sasa_lammps.constants\<close> are not part of the file; what they return is a parameter
  (records \<open>env\<close> and \<open>constants\<close>), and a call of one is the trace event \<open>Call\<close>.
\<close>

subsection \<open>Values\<close>

type_synonym pos = "real \<times> real \<times> real"
  \<comment> \<open>\<open>pos[0]\<close>, \<open>pos[1]\<close>, \<open>pos[2]\<close>\<close>

type_synonym rot = "real \<times> real \<times> real \<times> real"
  \<comment> \<open>\<open>rot[0]\<close> rotation angle, \<open>rot[1]\<close>, \<open>rot[2]\<close>, \<open>rot[3]\<close> the X, Y, Z
      components of the rotation vector\<close>

type_synonym bytes = "8 word list"

type_synonym pystr = "nat list"
  \<comment> \<open>a Python \<open>str\<close>: its code points\<close>

datatype exn = KeyboardInterrupt | UnicodeDecodeError | OtherError string

datatype signum = SIGINT

datatype handler = SIG_IGN | Original_handler

record constants =
  IN_PRE :: string
  IN_TEMPLATE :: string
  SPEC :: string
  FF_PARAMS :: string
  DUMP_COM :: string
  KCAL_TO_EV :: real

text \<open>The variables of the command line that \<open>_run_lmp\<close> formats. The model keeps the
  value behind each \<open>-var\<close>; the rounding of \<open>:.3f\<close> is not applied.\<close>

record invocation =
  exe :: string
  in_file :: string
  DataFile :: string
  MolFile :: string
  sasaX :: real
  sasaY :: real
  sasaZ :: real
  rotAng :: real
  rotVecX :: real
  rotVecY :: real
  rotVecZ :: real
  var_atom_number :: int
  var_res :: int
  emol :: real
  eprob :: real
  conv :: real

text \<open>What \<open>subprocess.run(..., capture_output=True)\<close> obtains from the child.\<close>

record completed_process =
  returncode :: int
  stdout :: bytes
  stderr :: bytes

text \<open>One element of \<open>run_iterable\<close>:
  \<open>[IN_TEMPLATE, pos, rot, atom_number, res, e_mol, e_prob]\<close>.\<close>

record task =
  task_in_file :: string
  task_pos :: pos
  task_rot :: rot
  task_atom_number :: int
  task_res :: int
  task_e_mol :: real
  task_e_prob :: real

record neighbors =
  res :: "int list"

record sasa =
  gro_file :: string
  data_file :: string
  mol_file :: string
  ff_str :: string
  dump_str :: string
  lammps_exe :: string
  n_procs :: int
  srad :: real
  samples :: int
  path :: string
  parent_pid :: nat
  xyz_file :: string
  sasa_positions :: "pos list"
  neighbors :: neighbors
  rotations :: "rot list"

datatype event =
    Call string
  | Subprocess_run invocation
  | Print pystr
  | Kill nat signum
  | Read_last_two
  | Write_file string string
  | Signal_sigint handler
  | Pool_open int
  | Pool_starmap "task list"
  | Pool_terminate
  | Pool_close
  | Pool_exit

text \<open>The answers of the environment during one run: the external evaluator, the
  imported helpers, the pid of the process that runs the orchestration, and the way each
  call on the pool ends in the parent process. \<open>None\<close> means that the call returns;
  \<open>Some e\<close> means that \<open>e\<close> is raised in the parent while the call runs. A
  \<open>KeyboardInterrupt\<close> is raised there when a \<open>SIGINT\<close> reaches the parent, from a
  failing worker or from the operator, and it can arrive during \<open>starmap\<close> as well as
  during \<open>pool.terminate()\<close>, \<open>pool.close()\<close> or the pool's \<open>__exit__\<close>.\<close>

record env =
  ext_evaluator :: "invocation \<Rightarrow> completed_process"
  ext_read_last_two :: "real \<times> real"
  ext_convert_data_file :: string
  ext_create_sasa_xyz :: "pos list"
  ext_neighbor_finder :: neighbors
  ext_count_atoms_in_macromol :: int
  ext_count_atoms_in_mol :: int
  ext_rotate_probe :: "rot list"
  ext_starmap_raises :: "exn option"
  ext_terminate_raises :: "exn option"
  ext_close_raises :: "exn option"
  ext_exit_raises :: "exn option"
  ext_getpid :: nat

record world =
  self :: sasa
  trace :: "event list"
  files :: "string \<Rightarrow> string option"

subsection \<open>Sequencing with exceptions\<close>

type_synonym 'a prog = "world \<Rightarrow> (exn + 'a) \<times> world"

definition ret :: "'a \<Rightarrow> 'a prog" where
  "ret x = (\<lambda>w. (Inr x, w))"

definition raise :: "exn \<Rightarrow> 'a prog" where
  "raise e = (\<lambda>w. (Inl e, w))"

definition bnd :: "'a prog \<Rightarrow> ('a \<Rightarrow> 'b prog) \<Rightarrow> 'b prog" where
  "bnd m f = (\<lambda>w. case m w of (Inl e, w') \<Rightarrow> (Inl e, w') | (Inr x, w') \<Rightarrow> f x w')"

definition emit :: "event \<Rightarrow> unit prog" where
  "emit e = (\<lambda>w. (Inr (), w\<lparr>trace := trace w @ [e]\<rparr>))"

definition get_self :: "sasa prog" where
  "get_self = (\<lambda>w. (Inr (self w), w))"

definition set_self :: "(sasa \<Rightarrow> sasa) \<Rightarrow> unit prog" where
  "set_self f = (\<lambda>w. (Inr (), w\<lparr>self := f (self w)\<rparr>))"

text \<open>\<open>with manager: body\<close>: the exit of the context manager runs however the body
  ends; the result of the body stands unless the exit raises.\<close>

definition with_block :: "'a prog \<Rightarrow> unit prog \<Rightarrow> 'a prog" where
  "with_block body exit_call =
     (\<lambda>w. case body w of
            (r, w') \<Rightarrow>
              (case exit_call w' of
                 (Inl e, w'') \<Rightarrow> (Inl e, w'')
               | (Inr u, w'') \<Rightarrow> (r, w'')))"

text \<open>\<open>with open(p, "w") as f: f.write(s)\<close>: the file is created or truncated.\<close>

definition write_file :: "string \<Rightarrow> string \<Rightarrow> unit prog" where
  "write_file p s =
     (\<lambda>w. (Inr (), w\<lparr>trace := trace w @ [Write_file p s], files := (files w)(p \<mapsto> s)\<rparr>))"

subsection \<open>Library functions the file calls\<close>

text \<open>\<open>str\<close> of a non-negative \<open>int\<close>, as the f-string \<open>{n_probes}\<close> formats it.\<close>

fun str_nat :: "nat \<Rightarrow> string" where
  "str_nat n = (if n < 10 then [''0123456789'' ! n]
                else str_nat (n div 10) @ [''0123456789'' ! (n mod 10)])"

declare str_nat.simps [simp del]

text \<open>\<open>os.path.join\<close> of two components (posixpath).\<close>

definition path_join :: "string \<Rightarrow> string \<Rightarrow> string" where
  "path_join a b =
     (if b \<noteq> [] \<and> hd b = CHR ''/'' then b
      else if a = [] \<or> last a = CHR ''/'' then a @ b
      else a @ ''/'' @ b)"

text \<open>\<open>bytes.decode()\<close>: strict UTF-8. \<open>None\<close> is \<open>UnicodeDecodeError\<close>.\<close>

definition cont :: "8 word \<Rightarrow> bool" where
  "cont b = (0x80 \<le> b \<and> b \<le> 0xBF)"

definition second3 :: "8 word \<Rightarrow> 8 word \<Rightarrow> bool" where
  "second3 b c =
     (if b = 0xE0 then 0xA0 \<le> c \<and> c \<le> 0xBF
      else if b = 0xED then 0x80 \<le> c \<and> c \<le> 0x9F
      else cont c)"

definition second4 :: "8 word \<Rightarrow> 8 word \<Rightarrow> bool" where
  "second4 b c =
     (if b = 0xF0 then 0x90 \<le> c \<and> c \<le> 0xBF
      else if b = 0xF4 then 0x80 \<le> c \<and> c \<le> 0x8F
      else cont c)"

definition low6 :: "8 word \<Rightarrow> nat" where
  "low6 c = unat c - 0x80"

fun bytes_decode :: "bytes \<Rightarrow> pystr option" where
  "bytes_decode [] = Some []"
| "bytes_decode (b # bs) =
    (if b < 0x80 then map_option ((#) (unat b)) (bytes_decode bs)
     else if 0xC2 \<le> b \<and> b \<le> 0xDF then
       (case bs of
          c1 # r \<Rightarrow>
            if cont c1
            then map_option ((#) ((unat b - 0xC0) * 64 + low6 c1)) (bytes_decode r)
            else None
        | _ \<Rightarrow> None)
     else if 0xE0 \<le> b \<and> b \<le> 0xEF then
       (case bs of
          c1 # c2 # r \<Rightarrow>
            if second3 b c1 \<and> cont c2
            then map_option ((#) ((unat b - 0xE0) * 4096 + low6 c1 * 64 + low6 c2))
                   (bytes_decode r)
            else None
        | _ \<Rightarrow> None)
     else if 0xF0 \<le> b \<and> b \<le> 0xF4 then
       (case bs of
          c1 # c2 # c3 # r \<Rightarrow>
            if second4 b c1 \<and> cont c2 \<and> cont c3
            then map_option
                   ((#) ((unat b - 0xF0) * 262144 + low6 c1 * 4096 + low6 c2 * 64 + low6 c3))
                   (bytes_decode r)
            else None
        | _ \<Rightarrow> None)
     else None)"

text \<open>\<open>os.kill(target, sig)\<close> called by the process \<open>pid\<close>. A \<open>SIGINT\<close> that a process
  sends to itself is taken by Python's default handler, which raises
  \<open>KeyboardInterrupt\<close> in that process; a signal to another process leaves the caller
  running.\<close>

definition os_kill :: "nat \<Rightarrow> nat \<Rightarrow> signum \<Rightarrow> unit prog" where
  "os_kill pid target sig =
     bnd (emit (Kill target sig))
       (\<lambda>_. if target = pid then raise KeyboardInterrupt else ret ())"

text \<open>\<open>np.zeros((n, 4))\<close> and the column update \<open>a[:, 1] += v\<close>.\<close>

definition np_zeros4 :: "nat \<Rightarrow> rot list" where
  "np_zeros4 n = replicate n (0, 0, 0, 0)"

definition add_column1 :: "real \<Rightarrow> rot list \<Rightarrow> rot list" where
  "add_column1 v a = map (\<lambda>(r0, r1, r2, r3). (r0, r1 + v, r2, r3)) a"

subsection \<open>\<open>Sasa._run_lmp\<close>\<close>

text \<open>The command of one evaluator call, from \<open>self\<close> and the arguments.\<close>

definition cmd :: "constants \<Rightarrow> sasa \<Rightarrow> string \<Rightarrow> pos \<Rightarrow> rot \<Rightarrow> int \<Rightarrow> int \<Rightarrow> real \<Rightarrow> real
    \<Rightarrow> invocation" where
  "cmd c s infile ps rt atom_number rs e_mol e_prob =
     (case ps of (p0, p1, p2) \<Rightarrow> case rt of (r0, r1, r2, r3) \<Rightarrow>
        \<lparr>exe = lammps_exe s, in_file = infile, DataFile = data_file s, MolFile = mol_file s,
         sasaX = p0, sasaY = p1, sasaZ = p2,
         rotAng = r0, rotVecX = r1, rotVecY = r2, rotVecZ = r3,
         var_atom_number = atom_number, var_res = rs, emol = e_mol, eprob = e_prob,
         conv = KCAL_TO_EV c\<rparr>)"

text \<open>\<open>pid\<close> is the process that executes the call: the parent in \<open>_pre_calc\<close>, a pool
  worker under \<open>starmap\<close>. \<open>subprocess.run(..., check=True)\<close> raises
  \<open>CalledProcessError\<close> exactly when the return code is not zero; the handler decodes
  and prints the captured standard output, then signals \<open>self.parent_pid\<close>. The
  decoding can raise; \<open>print\<close> and \<open>os.kill\<close> themselves are taken to return.\<close>

definition run_lmp :: "constants \<Rightarrow> env \<Rightarrow> nat \<Rightarrow> string \<Rightarrow> pos \<Rightarrow> rot \<Rightarrow> int \<Rightarrow> int \<Rightarrow> real
    \<Rightarrow> real \<Rightarrow> int prog" where
  "run_lmp c env pid infile ps rt atom_number rs e_mol e_prob =
     bnd get_self (\<lambda>s.
     bnd (emit (Subprocess_run (cmd c s infile ps rt atom_number rs e_mol e_prob))) (\<lambda>_.
     bnd (let exc = ext_evaluator env (cmd c s infile ps rt atom_number rs e_mol e_prob) in
          if returncode exc \<noteq> 0 then
            (case bytes_decode (stdout exc) of
               None \<Rightarrow> raise UnicodeDecodeError
             | Some msg \<Rightarrow>
                 bnd (emit (Print msg)) (\<lambda>_. os_kill pid (parent_pid s) SIGINT))
          else ret ()) (\<lambda>_.
     ret 0)))"

text \<open>\<open>starmap\<close> applies the worker function to the unpacked task.\<close>

definition run_task :: "constants \<Rightarrow> env \<Rightarrow> nat \<Rightarrow> task \<Rightarrow> int prog" where
  "run_task c env pid t =
     run_lmp c env pid (task_in_file t) (task_pos t) (task_rot t) (task_atom_number t)
       (task_res t) (task_e_mol t) (task_e_prob t)"

subsection \<open>\<open>Sasa._pre_calc\<close>\<close>

definition pre_calc :: "constants \<Rightarrow> env \<Rightarrow> nat \<Rightarrow> (real \<times> real) prog" where
  "pre_calc c env pid =
     bnd (run_lmp c env pid (IN_PRE c) (0, 0, 0) (0, 1, 0, 0) 0 0 0 0) (\<lambda>_.
     bnd (emit Read_last_two) (\<lambda>_.
     ret (ext_read_last_two env)))"

subsection \<open>\<open>Sasa._exec_lammps_iterations\<close>\<close>

definition header :: "nat \<Rightarrow> string" where
  "header n_probes =
     str_nat n_probes @ [CHR 0x0A] @ ''atom'' @ [CHR 0x09] @ ''x'' @ [CHR 0x09] @ ''y''
       @ [CHR 0x09] @ ''z'' @ [CHR 0x09] @ ''res'' @ [CHR 0x09] @ ''etot/eV'' @ [CHR 0x09]
       @ ''eint/eV'' @ [CHR 0x0A]"

text \<open>The list comprehension over \<open>zip(*iters)\<close>; \<open>zip\<close> stops with its shortest
  argument.\<close>

definition run_iterable :: "constants \<Rightarrow> int \<Rightarrow> real \<Rightarrow> real \<Rightarrow> pos list \<Rightarrow> int list
    \<Rightarrow> rot list \<Rightarrow> task list" where
  "run_iterable c atom_number e_mol e_prob positions residues rots =
     map (\<lambda>(ps, rs, rt).
            \<lparr>task_in_file = IN_TEMPLATE c, task_pos = ps, task_rot = rt,
             task_atom_number = atom_number, task_res = rs,
             task_e_mol = e_mol, task_e_prob = e_prob\<rparr>)
       (zip positions (zip residues rots))"

text \<open>A call on the pool in the parent process: the call is made, and an exception
  raised in the parent while it runs leaves the call.\<close>

definition pool_call :: "event \<Rightarrow> exn option \<Rightarrow> unit prog" where
  "pool_call ev raised =
     bnd (emit ev) (\<lambda>_. case raised of None \<Rightarrow> ret () | Some e \<Rightarrow> raise e)"

text \<open>The \<open>try\<close> statement inside \<open>with Pool(...)\<close> as the parent process sees it.
  \<open>starmap\<close> blocks until it returns or an exception is raised in the parent. Only a
  \<open>KeyboardInterrupt\<close> out of \<open>starmap\<close> is handled: \<open>pool.terminate()\<close> runs in the
  \<open>except\<close> clause and \<open>pool.close()\<close> in the \<open>else\<close> clause, both outside the
  \<open>try\<close>, so an exception raised during either leaves the statement. Leaving the
  \<open>with\<close> block calls the pool's \<open>__exit__\<close> in every case. The progress bar
  \<open>tqdm.tqdm\<close> yields the elements of \<open>run_iterable\<close> unchanged.\<close>

definition pool_block :: "env \<Rightarrow> task list \<Rightarrow> unit prog" where
  "pool_block env tasks =
     with_block
       (bnd (emit (Pool_starmap tasks)) (\<lambda>_.
        case ext_starmap_raises env of
          None \<Rightarrow> pool_call Pool_close (ext_close_raises env)
        | Some KeyboardInterrupt \<Rightarrow> pool_call Pool_terminate (ext_terminate_raises env)
        | Some e \<Rightarrow> raise e))
       (pool_call Pool_exit (ext_exit_raises env))"

definition exec_lammps_iterations :: "constants \<Rightarrow> env \<Rightarrow> nat \<Rightarrow> real \<Rightarrow> real \<Rightarrow> int prog"
  where
  "exec_lammps_iterations c env n_probes e_mol e_prob =
     bnd get_self (\<lambda>s.
     bnd (emit (Call ''_count_atoms_in_macromol'')) (\<lambda>_.
     bnd (write_file (path_join (path s) (SPEC c)) (header n_probes)) (\<lambda>_.
     bnd (emit (Call ''_count_atoms_in_mol'')) (\<lambda>_.
     bnd (if ext_count_atoms_in_mol env > 1
          then bnd (emit (Call ''_rotate_probe'')) (\<lambda>_.
               set_self (\<lambda>s. s\<lparr>rotations := ext_rotate_probe env\<rparr>))
          else set_self (\<lambda>s. s\<lparr>rotations := add_column1 1 (np_zeros4 n_probes)\<rparr>)) (\<lambda>_.
     bnd get_self (\<lambda>s.
     bnd (emit (Signal_sigint SIG_IGN)) (\<lambda>_.
     bnd (emit (Pool_open (n_procs s))) (\<lambda>_.
     bnd (emit (Signal_sigint Original_handler)) (\<lambda>_.
     bnd (pool_block env
            (run_iterable c (ext_count_atoms_in_macromol env) e_mol e_prob
               (sasa_positions s) (res (neighbors s)) (rotations s))) (\<lambda>_.
     ret 0))))))))))"

subsection \<open>\<open>Sasa._process\<close>, \<open>Sasa.__init__\<close> and \<open>sasa\<close>\<close>

definition process :: "constants \<Rightarrow> env \<Rightarrow> int prog" where
  "process c env =
     bnd (emit (Call ''gro2lammps.convert'')) (\<lambda>_.
     bnd (emit (Call ''_check_files'')) (\<lambda>_.
     bnd (emit (Call ''_write_params_file'')) (\<lambda>_.
     bnd (emit (Call ''_write_params_file'')) (\<lambda>_.
     bnd (pre_calc c env (ext_getpid env)) (\<lambda>(e_mol, e_prob).
     bnd (emit (Call ''_convert_data_file'')) (\<lambda>_.
     bnd (set_self (\<lambda>s. s\<lparr>xyz_file := ext_convert_data_file env\<rparr>)) (\<lambda>_.
     bnd (emit (Call ''_create_sasa_xyz'')) (\<lambda>_.
     bnd (set_self (\<lambda>s. s\<lparr>sasa_positions := ext_create_sasa_xyz env\<rparr>)) (\<lambda>_.
     bnd get_self (\<lambda>s.
     bnd (emit (Call ''_neighbor_finder'')) (\<lambda>_.
     bnd (set_self (\<lambda>s. s\<lparr>neighbors := ext_neighbor_finder env\<rparr>)) (\<lambda>_.
     bnd (exec_lammps_iterations c env (length (sasa_positions s)) e_mol e_prob) (\<lambda>_.
     bnd (emit (Call ''neighbor_analysis'')) (\<lambda>_.
     bnd (emit (Call ''atom_analysis'')) (\<lambda>_.
     bnd (emit (Call ''atom_analysis_plot'')) (\<lambda>_.
     bnd (emit (Call ''residuelist'')) (\<lambda>_.
     bnd (emit (Call ''residue_analysis'')) (\<lambda>_.
     bnd (emit (Call ''residue_analysis_plot'')) (\<lambda>_.
     ret 0)))))))))))))))))))"

text \<open>The constructor stores its arguments and the pid of the constructing process. The
  attributes that \<open>_process\<close> and \<open>_exec_lammps_iterations\<close> assign later do not exist yet
  in Python; the record holds empty values for them until they are assigned.\<close>

definition Sasa_init :: "env \<Rightarrow> string \<Rightarrow> string \<Rightarrow> string \<Rightarrow> string \<Rightarrow> string \<Rightarrow> string
    \<Rightarrow> int \<Rightarrow> real \<Rightarrow> int \<Rightarrow> string \<Rightarrow> sasa" where
  "Sasa_init env gro dat mol ff dump lmp procs sr smp pth =
     \<lparr>gro_file = gro, data_file = dat, mol_file = mol, ff_str = ff, dump_str = dump,
      lammps_exe = lmp, n_procs = procs, srad = sr, samples = smp, path = pth,
      parent_pid = ext_getpid env,
      xyz_file = [], sasa_positions = [], neighbors = \<lparr>res = []\<rparr>, rotations = []\<rparr>"

text \<open>The function \<open>sasa\<close>: one run, started with no trace and no file written.\<close>

definition sasa_run :: "constants \<Rightarrow> env \<Rightarrow> string \<Rightarrow> string \<Rightarrow> string \<Rightarrow> string \<Rightarrow> string
    \<Rightarrow> string \<Rightarrow> int \<Rightarrow> real \<Rightarrow> int \<Rightarrow> string \<Rightarrow> (exn + int) \<times> world" where
  "sasa_run c env gro dat mol ff dump lmp procs sr smp pth =
     bnd (process c env) (\<lambda>_. ret 0)
       \<lparr>self = Sasa_init env gro dat mol ff dump lmp procs sr smp pth,
        trace = [], files = Map.empty\<rparr>"

subsection \<open>Observations on a run\<close>

text \<open>The events a program adds to the trace, and its result.\<close>

definition events_of :: "'a prog \<Rightarrow> world \<Rightarrow> event list" where
  "events_of m w = drop (length (trace w)) (trace (snd (m w)))"

definition result_of :: "'a prog \<Rightarrow> world \<Rightarrow> exn + 'a" where
  "result_of m w = fst (m w)"

fun is_dispatch :: "event \<Rightarrow> bool" where
  "is_dispatch (Pool_starmap ts) = True"
| "is_dispatch e = False"

fun submitted :: "event \<Rightarrow> task list" where
  "submitted (Pool_starmap ts) = ts"
| "submitted e = []"

text \<open>The tasks handed to the pool, in the order of submission.\<close>

definition dispatched :: "event list \<Rightarrow> task list" where
  "dispatched es = concat (map submitted es)"

fun invoked :: "event \<Rightarrow> invocation list" where
  "invoked (Subprocess_run i) = [i]"
| "invoked e = []"

text \<open>The evaluator calls of the executing process.\<close>

definition invocations :: "event list \<Rightarrow> invocation list" where
  "invocations es = concat (map invoked es)"

fun written :: "event \<Rightarrow> (string \<times> string) list" where
  "written (Write_file p s) = [(p, s)]"
| "written e = []"

definition writes :: "event list \<Rightarrow> (string \<times> string) list" where
  "writes es = concat (map written es)"

text \<open>Reading a written count back: \<open>int(s)\<close> for a string of decimal digits.\<close>

definition digit_value :: "char \<Rightarrow> nat" where
  "digit_value ch = of_char ch - 48"

definition int_of_str :: "string \<Rightarrow> nat" where
  "int_of_str s = foldl (\<lambda>a ch. 10 * a + digit_value ch) 0 s"

text \<open>The command a worker runs for a task, and the orientation it passes.\<close>

definition task_cmd :: "constants \<Rightarrow> sasa \<Rightarrow> task \<Rightarrow> invocation" where
  "task_cmd c s t =
     cmd c s (task_in_file t) (task_pos t) (task_rot t) (task_atom_number t) (task_res t)
       (task_e_mol t) (task_e_prob t)"

definition angle :: "invocation \<Rightarrow> real" where
  "angle i = rotAng i"

definition axis :: "invocation \<Rightarrow> real \<times> real \<times> real" where
  "axis i = (rotVecX i, rotVecY i, rotVecZ i)"

text \<open>The baseline call of \<open>_pre_calc\<close>.\<close>

definition baseline_cmd :: "constants \<Rightarrow> sasa \<Rightarrow> invocation" where
  "baseline_cmd c s = cmd c s (IN_PRE c) (0, 0, 0) (0, 1, 0, 0) 0 0 0 0"

subsection \<open>The parts of the scheduler's trace\<close>

text \<open>What the \<open>with Pool\<close> block adds to the trace after \<open>starmap\<close> was called, and
  how it ends.\<close>

definition pool_events :: "env \<Rightarrow> event list" where
  "pool_events env =
     (case ext_starmap_raises env of
        None \<Rightarrow> [Pool_close, Pool_exit]
      | Some KeyboardInterrupt \<Rightarrow> [Pool_terminate, Pool_exit]
      | Some e \<Rightarrow> [Pool_exit])"

definition pool_result :: "env \<Rightarrow> exn + unit" where
  "pool_result env =
     (case ext_exit_raises env of
        Some e' \<Rightarrow> Inl e'
      | None \<Rightarrow>
          (case ext_starmap_raises env of
             None \<Rightarrow> (case ext_close_raises env of None \<Rightarrow> Inr () | Some e \<Rightarrow> Inl e)
           | Some KeyboardInterrupt \<Rightarrow>
               (case ext_terminate_raises env of None \<Rightarrow> Inr () | Some e \<Rightarrow> Inl e)
           | Some e \<Rightarrow> Inl e))"

text \<open>The value assigned to \<open>self.rotations\<close> and the list \<open>run_iterable\<close> built from it.\<close>

definition exec_rotations :: "env \<Rightarrow> nat \<Rightarrow> rot list" where
  "exec_rotations env n_probes =
     (if ext_count_atoms_in_mol env > 1 then ext_rotate_probe env
      else add_column1 1 (np_zeros4 n_probes))"

definition exec_tasks :: "constants \<Rightarrow> env \<Rightarrow> nat \<Rightarrow> real \<Rightarrow> real \<Rightarrow> sasa \<Rightarrow> task list" where
  "exec_tasks c env n_probes e_mol e_prob s =
     run_iterable c (ext_count_atoms_in_macromol env) e_mol e_prob (sasa_positions s)
       (res (neighbors s)) (exec_rotations env n_probes)"

text \<open>The events of one call of \<open>_exec_lammps_iterations\<close> on the object \<open>s\<close>.\<close>

definition exec_trace :: "constants \<Rightarrow> env \<Rightarrow> nat \<Rightarrow> real \<Rightarrow> real \<Rightarrow> sasa \<Rightarrow> event list"
  where
  "exec_trace c env n_probes e_mol e_prob s =
     [Call ''_count_atoms_in_macromol'',
      Write_file (path_join (path s) (SPEC c)) (header n_probes),
      Call ''_count_atoms_in_mol''] @
     (if ext_count_atoms_in_mol env > 1 then [Call ''_rotate_probe''] else []) @
     [Signal_sigint SIG_IGN, Pool_open (n_procs s), Signal_sigint Original_handler,
      Pool_starmap (exec_tasks c env n_probes e_mol e_prob s)] @ pool_events env"

text \<open>The events and the result of one call of \<open>_pre_calc\<close> by the process \<open>pid\<close>.\<close>

definition pre_calc_tail :: "constants \<Rightarrow> env \<Rightarrow> nat \<Rightarrow> sasa \<Rightarrow> event list" where
  "pre_calc_tail c env pid s =
     (let exc = ext_evaluator env (baseline_cmd c s) in
      if returncode exc = 0 then [Read_last_two]
      else case bytes_decode (stdout exc) of
             None \<Rightarrow> []
           | Some msg \<Rightarrow>
               [Print msg, Kill (parent_pid s) SIGINT] @
               (if parent_pid s = pid then [] else [Read_last_two]))"

definition pre_calc_result :: "constants \<Rightarrow> env \<Rightarrow> nat \<Rightarrow> sasa \<Rightarrow> exn + real \<times> real" where
  "pre_calc_result c env pid s =
     (let exc = ext_evaluator env (baseline_cmd c s) in
      if returncode exc = 0 then Inr (ext_read_last_two env)
      else case bytes_decode (stdout exc) of
             None \<Rightarrow> Inl UnicodeDecodeError
           | Some msg \<Rightarrow>
               if parent_pid s = pid then Inl KeyboardInterrupt
               else Inr (ext_read_last_two env))"

text \<open>The object after \<open>_process\<close> has assigned the geometry.\<close>

definition with_geometry :: "env \<Rightarrow> sasa \<Rightarrow> sasa" where
  "with_geometry env s =
     s\<lparr>xyz_file := ext_convert_data_file env, sasa_positions := ext_create_sasa_xyz env,
       neighbors := ext_neighbor_finder env\<rparr>"

definition postprocessing_calls :: "event list" where
  "postprocessing_calls =
     [Call ''neighbor_analysis'', Call ''atom_analysis'', Call ''atom_analysis_plot'',
      Call ''residuelist'', Call ''residue_analysis'', Call ''residue_analysis_plot'']"

subsection \<open>An example run\<close>

text \<open>A single-atom probe, two sample points, an evaluator that succeeds. The names of
  the templates and files are example values.\<close>

definition example_constants :: constants where
  "example_constants =
     \<lparr>IN_PRE = ''in.pre'', IN_TEMPLATE = ''in.template'', SPEC = ''spec.xyz'',
      FF_PARAMS = ''ff_params.dat'', DUMP_COM = ''dump_com.dat'', KCAL_TO_EV = 0.0433641\<rparr>"

definition evaluator_ok :: "invocation \<Rightarrow> completed_process" where
  "evaluator_ok i = \<lparr>returncode = 0, stdout = [], stderr = []\<rparr>"

text \<open>Exit status 1 with \<open>b"ERR"\<close> on standard output and \<open>b"!"\<close> on standard error.\<close>

definition evaluator_failing :: "invocation \<Rightarrow> completed_process" where
  "evaluator_failing i = \<lparr>returncode = 1, stdout = [0x45, 0x52, 0x52], stderr = [0x21]\<rparr>"

text \<open>Exit status 1 with the single byte \<open>b"\xff"\<close> on standard output.\<close>

definition evaluator_garbled :: "invocation \<Rightarrow> completed_process" where
  "evaluator_garbled i = \<lparr>returncode = 1, stdout = [0xFF], stderr = []\<rparr>"

definition example_env :: env where
  "example_env =
     \<lparr>ext_evaluator = evaluator_ok, ext_read_last_two = (-10, -2),
      ext_convert_data_file = ''data.xyz'',
      ext_create_sasa_xyz = [(1, 2, 3), (4, 5, 6)],
      ext_neighbor_finder = \<lparr>res = [7, 8]\<rparr>,
      ext_count_atoms_in_macromol = 5, ext_count_atoms_in_mol = 1,
      ext_rotate_probe = [], ext_starmap_raises = None, ext_terminate_raises = None,
      ext_close_raises = None, ext_exit_raises = None, ext_getpid = 100\<rparr>"

definition example_self :: sasa where
  "example_self =
     (Sasa_init example_env ''m.gro'' ''data.lmp'' ''probe.mol'' ''ff'' ''dump'' ''lmp'' 2
        1.4 100 ''.'')
       \<lparr>sasa_positions := [(1, 2, 3), (4, 5, 6)], neighbors := \<lparr>res = [7, 8]\<rparr>\<rparr>"

definition example_world :: world where
  "example_world = \<lparr>self = example_self, trace = [], files = Map.empty\<rparr>"

section \<open>Properties\<close>

subsection \<open>Sequencing\<close>

lemma ret_apply [simp]: "ret x w = (Inr x, w)"
  by (simp add: ret_def)

lemma raise_apply [simp]: "raise e w = (Inl e, w)"
  by (simp add: raise_def)

lemma emit_apply [simp]: "emit e w = (Inr (), w\<lparr>trace := trace w @ [e]\<rparr>)"
  by (simp add: emit_def)

lemma get_self_apply [simp]: "get_self w = (Inr (self w), w)"
  by (simp add: get_self_def)

lemma set_self_apply [simp]: "set_self g w = (Inr (), w\<lparr>self := g (self w)\<rparr>)"
  by (simp add: set_self_def)

lemma write_file_apply [simp]:
  "write_file p s w =
     (Inr (), w\<lparr>trace := trace w @ [Write_file p s], files := (files w)(p \<mapsto> s)\<rparr>)"
  by (simp add: write_file_def)

lemma bnd_apply:
  "bnd m f w = (case m w of (Inl e, w') \<Rightarrow> (Inl e, w') | (Inr x, w') \<Rightarrow> f x w')"
  by (simp add: bnd_def)

lemma os_kill_apply:
  "os_kill pid target sig w =
     (if target = pid then Inl KeyboardInterrupt else Inr (),
      w\<lparr>trace := trace w @ [Kill target sig]\<rparr>)"
  by (simp add: os_kill_def bnd_apply)

subsection \<open>What each function does to the world\<close>

lemma run_lmp_apply:
  "run_lmp c env pid infile ps rt an rs em ep w =
     (let i = cmd c (self w) infile ps rt an rs em ep; exc = ext_evaluator env i in
      if returncode exc = 0 then (Inr 0, w\<lparr>trace := trace w @ [Subprocess_run i]\<rparr>)
      else case bytes_decode (stdout exc) of
             None \<Rightarrow> (Inl UnicodeDecodeError, w\<lparr>trace := trace w @ [Subprocess_run i]\<rparr>)
           | Some msg \<Rightarrow>
               (if parent_pid (self w) = pid then Inl KeyboardInterrupt else Inr 0,
                w\<lparr>trace := trace w @
                    [Subprocess_run i, Print msg, Kill (parent_pid (self w)) SIGINT]\<rparr>))"
  by (simp add: run_lmp_def Let_def os_kill_apply bnd_apply split: option.splits)

lemma pre_calc_apply:
  "pre_calc c env pid w =
     (let i = baseline_cmd c (self w); exc = ext_evaluator env i in
      if returncode exc = 0
      then (Inr (ext_read_last_two env),
            w\<lparr>trace := trace w @ [Subprocess_run i, Read_last_two]\<rparr>)
      else case bytes_decode (stdout exc) of
             None \<Rightarrow> (Inl UnicodeDecodeError, w\<lparr>trace := trace w @ [Subprocess_run i]\<rparr>)
           | Some msg \<Rightarrow>
               if parent_pid (self w) = pid
               then (Inl KeyboardInterrupt,
                     w\<lparr>trace := trace w @ [Subprocess_run i, Print msg,
                         Kill (parent_pid (self w)) SIGINT]\<rparr>)
               else (Inr (ext_read_last_two env),
                     w\<lparr>trace := trace w @ [Subprocess_run i, Print msg,
                         Kill (parent_pid (self w)) SIGINT, Read_last_two]\<rparr>))"
  by (simp add: pre_calc_def bnd_apply run_lmp_apply baseline_cmd_def Let_def
      split: option.splits)

lemma pool_call_apply:
  "pool_call ev raised w =
     (case raised of None \<Rightarrow> Inr () | Some e \<Rightarrow> Inl e, w\<lparr>trace := trace w @ [ev]\<rparr>)"
  by (simp add: pool_call_def bnd_apply split: option.splits)

lemma pool_block_apply:
  "pool_block env tasks w =
     (pool_result env, w\<lparr>trace := trace w @ Pool_starmap tasks # pool_events env\<rparr>)"
  by (simp add: pool_block_def with_block_def pool_call_apply pool_events_def pool_result_def
      bnd_apply split: option.splits exn.splits)

lemma exec_apply:
  "exec_lammps_iterations c env n e_mol e_prob w =
     (map_sum id (\<lambda>_. 0) (pool_result env),
      w\<lparr>self := (self w)\<lparr>rotations := exec_rotations env n\<rparr>,
        trace := trace w @
          [Call ''_count_atoms_in_macromol'',
           Write_file (path_join (path (self w)) (SPEC c)) (header n),
           Call ''_count_atoms_in_mol''] @
          (if ext_count_atoms_in_mol env > 1 then [Call ''_rotate_probe''] else []) @
          [Signal_sigint SIG_IGN, Pool_open (n_procs (self w)), Signal_sigint Original_handler,
           Pool_starmap (exec_tasks c env n e_mol e_prob (self w))] @ pool_events env,
        files := (files w)(path_join (path (self w)) (SPEC c) \<mapsto> header n)\<rparr>)"
  by (simp add: exec_lammps_iterations_def exec_tasks_def exec_rotations_def
        pool_block_apply bnd_apply split: sum.splits)

lemma dispatched_simps [simp]:
  "dispatched [] = []"
  "dispatched (e # es) = submitted e @ dispatched es"
  "dispatched (xs @ ys) = dispatched xs @ dispatched ys"
  by (simp_all add: dispatched_def)

lemma invocations_simps [simp]:
  "invocations [] = []"
  "invocations (e # es) = invoked e @ invocations es"
  "invocations (xs @ ys) = invocations xs @ invocations ys"
  by (simp_all add: invocations_def)

lemma writes_simps [simp]:
  "writes [] = []"
  "writes (e # es) = written e @ writes es"
  "writes (xs @ ys) = writes xs @ writes ys"
  by (simp_all add: writes_def)

lemma dispatched_pool_events [simp]: "dispatched (pool_events env) = []"
  by (simp add: pool_events_def split: option.splits exn.splits)

lemma writes_pool_events [simp]: "writes (pool_events env) = []"
  by (simp add: pool_events_def split: option.splits exn.splits)

lemma exec_events:
  "events_of (exec_lammps_iterations c env n e_mol e_prob) w =
     [Call ''_count_atoms_in_macromol'',
      Write_file (path_join (path (self w)) (SPEC c)) (header n),
      Call ''_count_atoms_in_mol''] @
     (if ext_count_atoms_in_mol env > 1 then [Call ''_rotate_probe''] else []) @
     [Signal_sigint SIG_IGN, Pool_open (n_procs (self w)), Signal_sigint Original_handler,
      Pool_starmap (exec_tasks c env n e_mol e_prob (self w))] @ pool_events env"
  by (simp add: events_of_def exec_apply)

lemma exec_dispatched:
  "dispatched (events_of (exec_lammps_iterations c env n e_mol e_prob) w) =
     exec_tasks c env n e_mol e_prob (self w)"
  by (simp add: exec_events)

lemma length_run_iterable:
  "length (run_iterable c an em ep ps rs rts) = min (length ps) (min (length rs) (length rts))"
  by (simp add: run_iterable_def)

lemma nth_run_iterable:
  "i < length ps \<Longrightarrow> i < length rs \<Longrightarrow> i < length rts \<Longrightarrow>
   run_iterable c an em ep ps rs rts ! i =
     \<lparr>task_in_file = IN_TEMPLATE c, task_pos = ps ! i, task_rot = rts ! i,
      task_atom_number = an, task_res = rs ! i, task_e_mol = em, task_e_prob = ep\<rparr>"
  by (simp add: run_iterable_def)

lemma single_atom_rot:
  "t \<in> set (run_iterable c an em ep ps rs (add_column1 1 (np_zeros4 n))) \<Longrightarrow>
   task_rot t = (0, 1, 0, 0)"
  by (auto simp: run_iterable_def add_column1_def np_zeros4_def dest!: set_zip_rightD)

lemma example_simps:
  "self example_world = example_self"
  "sasa_positions example_self = [(1, 2, 3), (4, 5, 6)]"
  "res (neighbors example_self) = [7, 8]"
  "parent_pid example_self = 100"
  "ext_count_atoms_in_mol example_env = 1"
  "ext_count_atoms_in_macromol example_env = 5"
  "ext_starmap_raises example_env = None"
  "ext_terminate_raises example_env = None"
  "ext_close_raises example_env = None"
  "ext_exit_raises example_env = None"
  by (simp_all add: example_world_def example_self_def example_env_def Sasa_init_def)

lemma example_exec_tasks:
  "exec_tasks example_constants example_env 2 (-10) (-2) example_self =
     [\<lparr>task_in_file = ''in.template'', task_pos = (1, 2, 3), task_rot = (0, 1, 0, 0),
       task_atom_number = 5, task_res = 7, task_e_mol = -10, task_e_prob = -2\<rparr>,
      \<lparr>task_in_file = ''in.template'', task_pos = (4, 5, 6), task_rot = (0, 1, 0, 0),
       task_atom_number = 5, task_res = 8, task_e_mol = -10, task_e_prob = -2\<rparr>]"
  by (simp add: exec_tasks_def exec_rotations_def example_simps run_iterable_def
      add_column1_def np_zeros4_def example_constants_def numeral_2_eq_2)

section \<open>The task builder\<close>

text \<open>
  Claim C3. For all input sequences of positions, residue ids and orientations of equal
  length, the list \<open>run_iterable\<close> has that length, and its \<open>i\<close>-th task holds the
  \<open>i\<close>-th position, the \<open>i\<close>-th residue id and the \<open>i\<close>-th orientation, with the
  same template, atom count and baseline energy pair in every task. The list is handed
  to \<open>starmap\<close> as it is (lemma \<open>exec_dispatched\<close>), so the order of submission is the
  order of the inputs.
\<close>

theorem run_iterable_elementwise:
  assumes "length positions = length residues" and "length residues = length rots"
  shows "length (run_iterable c atom_number e_mol e_prob positions residues rots)
           = length positions
       \<and> (\<forall>i < length positions.
            run_iterable c atom_number e_mol e_prob positions residues rots ! i =
              \<lparr>task_in_file = IN_TEMPLATE c, task_pos = positions ! i, task_rot = rots ! i,
               task_atom_number = atom_number, task_res = residues ! i,
               task_e_mol = e_mol, task_e_prob = e_prob\<rparr>)"
  using assms by (simp add: length_run_iterable nth_run_iterable)

theorem run_iterable_elementwise_witness:
  "length [(1, 2, 3), (4, 5, 6) :: pos] = length [7, 8 :: int]
   \<and> length [7, 8 :: int] = length [(0, 1, 0, 0), (90, 0, 0, 1) :: rot]
   \<and> length (run_iterable example_constants 5 (-10) (-2) [(1, 2, 3), (4, 5, 6)] [7, 8]
        [(0, 1, 0, 0), (90, 0, 0, 1)]) = 2
   \<and> run_iterable example_constants 5 (-10) (-2) [(1, 2, 3), (4, 5, 6)] [7, 8]
        [(0, 1, 0, 0), (90, 0, 0, 1)] ! 1 =
       \<lparr>task_in_file = ''in.template'', task_pos = (4, 5, 6), task_rot = (90, 0, 0, 1),
        task_atom_number = 5, task_res = 8, task_e_mol = -10, task_e_prob = -2\<rparr>"
  using run_iterable_elementwise [of "[(1, 2, 3), (4, 5, 6)]" "[7, 8]"
      "[(0, 1, 0, 0), (90, 0, 0, 1)]" example_constants 5 "-10" "-2"]
  by (simp add: example_constants_def)

text \<open>
  Claim C4, as amended. When the probe has at most one atom, every task dispatched by
  \<open>_exec_lammps_iterations\<close> carries the rotation row \<open>[0, 1, 0, 0]\<close>: \<open>_run_lmp\<close> passes
  angle \<open>rot[0] = 0\<close> and the axis \<open>(rot[1], rot[2], rot[3]) = (1, 0, 0)\<close> to the
  evaluator. The axis is the X axis, not \<open>(0, 1, 0)\<close>.
\<close>

theorem single_atom_orientation:
  assumes "ext_count_atoms_in_mol env \<le> 1"
  shows "\<forall>t \<in> set (dispatched (events_of (exec_lammps_iterations c env n e_mol e_prob) w)).
           angle (task_cmd c (self w) t) = 0 \<and> axis (task_cmd c (self w) t) = (1, 0, 0)"
  using assms
  by (auto simp: exec_dispatched exec_tasks_def exec_rotations_def task_cmd_def cmd_def
        angle_def axis_def dest!: single_atom_rot split: prod.splits)

theorem single_atom_orientation_witness:
  "ext_count_atoms_in_mol example_env \<le> 1
   \<and> length (dispatched (events_of
         (exec_lammps_iterations example_constants example_env 2 (-10) (-2)) example_world)) = 2
   \<and> angle (task_cmd example_constants example_self
        (dispatched (events_of
           (exec_lammps_iterations example_constants example_env 2 (-10) (-2)) example_world)
         ! 1)) = 0
   \<and> axis (task_cmd example_constants example_self
        (dispatched (events_of
           (exec_lammps_iterations example_constants example_env 2 (-10) (-2)) example_world)
         ! 1)) = (1, 0, 0)"
  using single_atom_orientation [of example_env example_constants 2 "-10" "-2" example_world]
  by (simp add: exec_dispatched example_simps example_exec_tasks)

text \<open>
  Claim C4 as stated fails on the example run: the probe has one atom and the axis of
  the first task is not \<open>(0, 1, 0)\<close>.
\<close>

theorem single_atom_axis_counterexample:
  "ext_count_atoms_in_mol example_env = 1
   \<and> axis (task_cmd example_constants example_self
        (dispatched (events_of
           (exec_lammps_iterations example_constants example_env 2 (-10) (-2)) example_world)
         ! 0)) \<noteq> (0, 1, 0)"
  by (simp add: exec_dispatched example_simps example_exec_tasks task_cmd_def cmd_def axis_def)

text \<open>
  Claim C5. When the probe has at most one atom, the rotation axis that every dispatched
  task passes to the evaluator is not the zero vector, for every number of sample points.
\<close>

theorem single_atom_axis_nonzero:
  assumes "ext_count_atoms_in_mol env \<le> 1"
  shows "\<forall>t \<in> set (dispatched (events_of (exec_lammps_iterations c env n e_mol e_prob) w)).
           axis (task_cmd c (self w) t) \<noteq> (0, 0, 0)"
  using assms
  by (auto simp: exec_dispatched exec_tasks_def exec_rotations_def task_cmd_def cmd_def
        axis_def dest!: single_atom_rot split: prod.splits)

theorem single_atom_axis_nonzero_witness:
  "ext_count_atoms_in_mol example_env \<le> 1
   \<and> length (dispatched (events_of
         (exec_lammps_iterations example_constants example_env 2 (-10) (-2)) example_world)) = 2
   \<and> axis (task_cmd example_constants example_self
        (dispatched (events_of
           (exec_lammps_iterations example_constants example_env 2 (-10) (-2)) example_world)
         ! 0)) \<noteq> (0, 0, 0)"
  using single_atom_axis_nonzero [of example_env example_constants 2 "-10" "-2" example_world]
  by (simp add: exec_dispatched example_simps example_exec_tasks)

section \<open>The worker function\<close>

text \<open>
  Claim C10. A failed evaluator invocation never raises an exception out of the per-task
  worker function: the error is caught inside \<open>_run_lmp\<close>, the captured standard output
  is printed, the parent is signalled and the worker returns normally. The code breaks
  this when the captured standard output is not valid UTF-8. In a pool worker (process
  101, parent 100) whose evaluator exits with status 1 and standard output \<open>b"\xff"\<close>,
  \<open>exc.stdout.decode()\<close> raises \<open>UnicodeDecodeError\<close> inside the handler: the
  evaluator call is the worker's only action, nothing is printed, no signal is sent, and
  the exception leaves \<open>_run_lmp\<close>.
\<close>

theorem run_lmp_undecodable_stdout_raises:
  "returncode (ext_evaluator (example_env\<lparr>ext_evaluator := evaluator_garbled\<rparr>)
      (cmd example_constants (self example_world) ''in.template'' (1, 2, 3) (0, 1, 0, 0) 5 7
         (-10) (-2))) = 1
   \<and> stdout (ext_evaluator (example_env\<lparr>ext_evaluator := evaluator_garbled\<rparr>)
      (cmd example_constants (self example_world) ''in.template'' (1, 2, 3) (0, 1, 0, 0) 5 7
         (-10) (-2))) = [0xFF]
   \<and> parent_pid (self example_world) = 100
   \<and> result_of (run_lmp example_constants (example_env\<lparr>ext_evaluator := evaluator_garbled\<rparr>)
        101 ''in.template'' (1, 2, 3) (0, 1, 0, 0) 5 7 (-10) (-2)) example_world
       = Inl UnicodeDecodeError
   \<and> events_of (run_lmp example_constants (example_env\<lparr>ext_evaluator := evaluator_garbled\<rparr>)
        101 ''in.template'' (1, 2, 3) (0, 1, 0, 0) 5 7 (-10) (-2)) example_world =
       [Subprocess_run (cmd example_constants example_self ''in.template'' (1, 2, 3)
          (0, 1, 0, 0) 5 7 (-10) (-2))]"
  by (simp add: run_lmp_apply evaluator_garbled_def example_simps result_of_def events_of_def)

section \<open>The baseline computation\<close>

text \<open>
  Claim C7, as amended. \<open>_pre_calc\<close> invokes the external evaluator exactly once, with the
  template \<open>IN_PRE\<close>, the zero position and the rotation row \<open>[0, 1, 0, 0]\<close>; when that
  call exits with status zero, the two energy values are read after it and returned.
\<close>

theorem pre_calc_one_invocation:
  "invocations (events_of (pre_calc c env pid) w) = [baseline_cmd c (self w)]
   \<and> (returncode (ext_evaluator env (baseline_cmd c (self w))) = 0 \<longrightarrow>
        events_of (pre_calc c env pid) w =
          [Subprocess_run (baseline_cmd c (self w)), Read_last_two]
        \<and> result_of (pre_calc c env pid) w = Inr (ext_read_last_two env))"
  by (simp add: pre_calc_apply Let_def events_of_def result_of_def split: option.splits)

theorem pre_calc_one_invocation_witness:
  "returncode (ext_evaluator example_env (baseline_cmd example_constants (self example_world)))
     = 0
   \<and> invocations (events_of (pre_calc example_constants example_env 100) example_world) =
       [baseline_cmd example_constants example_self]
   \<and> events_of (pre_calc example_constants example_env 100) example_world =
       [Subprocess_run (baseline_cmd example_constants example_self), Read_last_two]
   \<and> result_of (pre_calc example_constants example_env 100) example_world = Inr (-10, -2)"
  using pre_calc_one_invocation [of example_constants example_env 100 example_world]
  by (simp add: evaluator_ok_def example_simps example_env_def)

text \<open>
  Claim C7 as stated fails on the example run: the baseline computation returns both
  energies after one evaluator call, not two.
\<close>

theorem pre_calc_twice_counterexample:
  "length (invocations (events_of (pre_calc example_constants example_env 100) example_world))
     = 1
   \<and> length (invocations (events_of (pre_calc example_constants example_env 100)
        example_world)) \<noteq> 2
   \<and> result_of (pre_calc example_constants example_env 100) example_world = Inr (-10, -2)"
  by (simp add: pre_calc_apply Let_def events_of_def result_of_def evaluator_ok_def
      example_env_def split: option.splits)

section \<open>The scheduler\<close>

lemma exec_result:
  "result_of (exec_lammps_iterations c env n e_mol e_prob) w =
     map_sum id (\<lambda>_. 0) (pool_result env)"
  by (simp add: result_of_def exec_apply)




text \<open>
  Claim C8, as amended. \<open>_exec_lammps_iterations\<close> has no outcome value: whenever it
  returns, the value is \<open>0\<close>. It returns \<open>0\<close> after a completed run (\<open>starmap\<close>
  returns, the pool is closed and left) and after an interrupted run whose
  \<open>pool.terminate()\<close> and pool exit end normally, so the returned value does not tell
  the two apart.
\<close>

theorem exec_returns_zero:
  "(\<forall>v. result_of (exec_lammps_iterations c env n e_mol e_prob) w = Inr v \<longrightarrow> v = 0)
   \<and> (ext_starmap_raises env = None \<and> ext_close_raises env = None
        \<and> ext_exit_raises env = None \<longrightarrow>
        result_of (exec_lammps_iterations c env n e_mol e_prob) w = Inr 0)
   \<and> (ext_starmap_raises env = Some KeyboardInterrupt \<and> ext_terminate_raises env = None
        \<and> ext_exit_raises env = None \<longrightarrow>
        result_of (exec_lammps_iterations c env n e_mol e_prob) w = Inr 0)"
  by (cases "pool_result env") (auto simp: exec_result pool_result_def)

theorem exec_returns_zero_witness:
  "ext_starmap_raises (example_env\<lparr>ext_starmap_raises := Some KeyboardInterrupt\<rparr>)
     = Some KeyboardInterrupt
   \<and> ext_terminate_raises (example_env\<lparr>ext_starmap_raises := Some KeyboardInterrupt\<rparr>) = None
   \<and> ext_exit_raises (example_env\<lparr>ext_starmap_raises := Some KeyboardInterrupt\<rparr>) = None
   \<and> result_of (exec_lammps_iterations example_constants
         (example_env\<lparr>ext_starmap_raises := Some KeyboardInterrupt\<rparr>) 2 (-10) (-2))
       example_world = Inr 0
   \<and> ext_starmap_raises example_env = None \<and> ext_close_raises example_env = None
   \<and> ext_exit_raises example_env = None
   \<and> result_of (exec_lammps_iterations example_constants example_env 2 (-10) (-2))
       example_world = Inr 0"
  using exec_returns_zero [of example_constants
      "example_env\<lparr>ext_starmap_raises := Some KeyboardInterrupt\<rparr>" 2 "-10" "-2" example_world]
    exec_returns_zero [of example_constants example_env 2 "-10" "-2" example_world]
  by (simp add: example_simps)

text \<open>
  Claim C8 as stated fails on the example run: the completed run, which closes the pool,
  and the interrupted run, which terminates it, return the same value.
\<close>

theorem exec_outcome_counterexample:
  "result_of (exec_lammps_iterations example_constants example_env 2 (-10) (-2)) example_world
     = result_of (exec_lammps_iterations example_constants
         (example_env\<lparr>ext_starmap_raises := Some KeyboardInterrupt\<rparr>) 2 (-10) (-2))
       example_world
   \<and> last (butlast (events_of
        (exec_lammps_iterations example_constants example_env 2 (-10) (-2)) example_world))
       = Pool_close
   \<and> last (butlast (events_of
        (exec_lammps_iterations example_constants
           (example_env\<lparr>ext_starmap_raises := Some KeyboardInterrupt\<rparr>) 2 (-10) (-2))
        example_world)) = Pool_terminate"
  by (simp add: exec_result exec_events pool_result_def pool_events_def
      example_simps butlast_append)

text \<open>
  An interrupted run does not always return: a further \<open>KeyboardInterrupt\<close> that
  arrives during \<open>pool.terminate()\<close>, which runs outside the \<open>try\<close>, leaves the function.
\<close>

lemma exec_interrupted_during_terminate:
  assumes "ext_starmap_raises env = Some KeyboardInterrupt"
    and "ext_terminate_raises env = Some KeyboardInterrupt"
    and "ext_exit_raises env = None"
  shows "result_of (exec_lammps_iterations c env n e_mol e_prob) w = Inl KeyboardInterrupt"
  using assms by (simp add: exec_result pool_result_def)

section \<open>The output file\<close>

text \<open>\<open>str_nat\<close> writes the decimal numeral of its argument: digits only, no leading
  zero, and reading it back gives the number.\<close>

lemma below_ten:
  assumes "k < (10::nat)"
  shows "k = 0 \<or> k = 1 \<or> k = 2 \<or> k = 3 \<or> k = 4 \<or> k = 5 \<or> k = 6 \<or> k = 7 \<or> k = 8 \<or> k = 9"
  using assms by presburger

lemma digit_nth:
  assumes "k < 10"
  shows "digit_value (''0123456789'' ! k) = k"
    and "''0123456789'' ! k \<in> set ''0123456789''"
    and "(''0123456789'' ! k = CHR ''0'') = (k = 0)"
  using below_ten [OF assms] by (auto simp: digit_value_def)

lemma str_nat_nonempty: "str_nat n \<noteq> []"
  by (subst str_nat.simps) simp

lemma str_nat_digits: "set (str_nat n) \<subseteq> set ''0123456789''"
proof (induction n rule: str_nat.induct)
  case (1 n)
  show ?case
  proof (cases "n < 10")
    case True
    then show ?thesis
      using digit_nth(2) [of n] by (subst str_nat.simps) simp
  next
    case False
    have "n mod 10 < 10" by simp
    then show ?thesis
      using False 1 digit_nth(2) [of "n mod 10"] by (subst str_nat.simps) simp
  qed
qed

lemma int_of_str_snoc: "int_of_str (s @ [ch]) = 10 * int_of_str s + digit_value ch"
  by (simp add: int_of_str_def)

lemma int_of_str_str_nat: "int_of_str (str_nat n) = n"
proof (induction n rule: str_nat.induct)
  case (1 n)
  show ?case
  proof (cases "n < 10")
    case True
    then show ?thesis
      using digit_nth(1) [of n] by (subst str_nat.simps) (simp add: int_of_str_def)
  next
    case False
    have "n mod 10 < 10" by simp
    then have "digit_value (''0123456789'' ! (n mod 10)) = n mod 10"
      by (rule digit_nth(1))
    then show ?thesis
      using False 1 by (subst str_nat.simps) (simp add: int_of_str_snoc)
  qed
qed

lemma str_nat_zero: "str_nat 0 = ''0''"
  by (simp add: str_nat.simps)

lemma str_nat_leading:
  "(hd (str_nat n) = CHR ''0'') = (str_nat n = ''0'')"
proof (induction n rule: str_nat.induct)
  case (1 n)
  show ?case
  proof (cases "n < 10")
    case True
    then have "str_nat n = [''0123456789'' ! n]"
      by (subst str_nat.simps) simp
    then show ?thesis
      by simp
  next
    case False
    then have eq: "str_nat n = str_nat (n div 10) @ [''0123456789'' ! (n mod 10)]"
      by (subst str_nat.simps) simp
    from False have "n div 10 \<noteq> 0"
      by simp
    moreover have "int_of_str (str_nat (n div 10)) = n div 10"
      by (rule int_of_str_str_nat)
    moreover have "int_of_str ''0'' = 0"
      by (simp add: int_of_str_def digit_value_def)
    ultimately have "str_nat (n div 10) \<noteq> ''0''"
      by metis
    with 1 False have "hd (str_nat (n div 10)) \<noteq> CHR ''0''"
      by simp
    then have "hd (str_nat n) \<noteq> CHR ''0''"
      using eq str_nat_nonempty [of "n div 10"] by simp
    moreover have "str_nat n \<noteq> ''0''"
      using eq str_nat_nonempty [of "n div 10"] by simp
    ultimately show ?thesis
      by simp
  qed
qed

lemma str_nat_1203: "str_nat 1203 = ''1203''"
  by (simp add: str_nat.simps)

lemma example_path: "path_join (path example_self) (SPEC example_constants) = ''./spec.xyz''"
  by (simp add: path_join_def example_self_def Sasa_init_def example_constants_def)

text \<open>
  Claim C6. In every call of \<open>_exec_lammps_iterations\<close> the only file written is the
  output file, once, with the text \<open>"<n_probes>\natom\tx\ty\tz\tres\tetot/eV\teint/eV\n"\<close>,
  where \<open><n_probes>\<close> is the decimal numeral of \<open>n_probes\<close>; the write is the second
  action of the call, after the atom count, and every submission to the pool comes later
  in the trace, whatever the number of tasks. After the call the file holds that text.
  With no sample point nothing is dispatched, so for \<open>n_probes = 0\<close> the file holds the
  header \<open>"0\natom\tx\ty\tz\tres\tetot/eV\teint/eV\n"\<close> alone.
\<close>

theorem header_written_once_before_dispatch:
  "writes (events_of (exec_lammps_iterations c env n e_mol e_prob) w) =
     [(path_join (path (self w)) (SPEC c),
       str_nat n @ [CHR 0x0A] @ ''atom'' @ [CHR 0x09] @ ''x'' @ [CHR 0x09] @ ''y''
         @ [CHR 0x09] @ ''z'' @ [CHR 0x09] @ ''res'' @ [CHR 0x09] @ ''etot/eV''
         @ [CHR 0x09] @ ''eint/eV'' @ [CHR 0x0A])]
   \<and> str_nat n \<noteq> [] \<and> set (str_nat n) \<subseteq> set ''0123456789''
   \<and> int_of_str (str_nat n) = n
   \<and> (hd (str_nat n) = CHR ''0'') = (str_nat n = ''0'')
   \<and> take 2 (events_of (exec_lammps_iterations c env n e_mol e_prob) w) =
       [Call ''_count_atoms_in_macromol'',
        Write_file (path_join (path (self w)) (SPEC c)) (header n)]
   \<and> (\<forall>j < length (events_of (exec_lammps_iterations c env n e_mol e_prob) w).
        is_dispatch (events_of (exec_lammps_iterations c env n e_mol e_prob) w ! j) \<longrightarrow> 1 < j)
   \<and> files (snd (exec_lammps_iterations c env n e_mol e_prob w))
        (path_join (path (self w)) (SPEC c)) =
       Some (str_nat n @ [CHR 0x0A] @ ''atom'' @ [CHR 0x09] @ ''x'' @ [CHR 0x09] @ ''y''
         @ [CHR 0x09] @ ''z'' @ [CHR 0x09] @ ''res'' @ [CHR 0x09] @ ''etot/eV''
         @ [CHR 0x09] @ ''eint/eV'' @ [CHR 0x0A])
   \<and> (sasa_positions (self w) = [] \<longrightarrow>
        dispatched (events_of (exec_lammps_iterations c env n e_mol e_prob) w) = [])"
proof -
  let ?ev = "events_of (exec_lammps_iterations c env n e_mol e_prob) w"
  let ?text = "str_nat n @ [CHR 0x0A] @ ''atom'' @ [CHR 0x09] @ ''x'' @ [CHR 0x09] @ ''y''
         @ [CHR 0x09] @ ''z'' @ [CHR 0x09] @ ''res'' @ [CHR 0x09] @ ''etot/eV''
         @ [CHR 0x09] @ ''eint/eV'' @ [CHR 0x0A]"
  have w: "writes ?ev = [(path_join (path (self w)) (SPEC c), ?text)]"
    by (simp add: exec_events header_def)
  have t: "take 2 ?ev = [Call ''_count_atoms_in_macromol'',
        Write_file (path_join (path (self w)) (SPEC c)) (header n)]"
    by (simp add: exec_events numeral_2_eq_2)
  have d: "\<forall>j < length ?ev. is_dispatch (?ev ! j) \<longrightarrow> 1 < j"
  proof (intro allI impI)
    fix j assume "j < length ?ev" and disp: "is_dispatch (?ev ! j)"
    have n0: "\<not> is_dispatch (?ev ! 0)" and n1: "\<not> is_dispatch (?ev ! 1)"
      by (simp_all add: exec_events)
    have "j \<noteq> 0"
    proof
      assume "j = 0"
      with disp n0 show False by simp
    qed
    moreover have "j \<noteq> 1"
    proof
      assume "j = 1"
      with disp n1 show False by simp
    qed
    ultimately show "1 < j"
      by arith
  qed
  have f: "files (snd (exec_lammps_iterations c env n e_mol e_prob w))
        (path_join (path (self w)) (SPEC c)) = Some ?text"
    by (simp add: exec_apply header_def)
  have z: "sasa_positions (self w) = [] \<longrightarrow> dispatched ?ev = []"
    by (simp add: exec_dispatched exec_tasks_def run_iterable_def)
  from w t d f z str_nat_nonempty [of n] str_nat_digits [of n] int_of_str_str_nat [of n]
    str_nat_leading [of n]
  show ?thesis
    by blast
qed

theorem header_written_once_before_dispatch_witness:
  "sasa_positions (self (example_world\<lparr>self := example_self\<lparr>sasa_positions := []\<rparr>\<rparr>)) = []
   \<and> 6 < length (events_of (exec_lammps_iterations example_constants example_env 0 (-10) (-2))
         (example_world\<lparr>self := example_self\<lparr>sasa_positions := []\<rparr>\<rparr>))
   \<and> is_dispatch (events_of (exec_lammps_iterations example_constants example_env 0 (-10) (-2))
         (example_world\<lparr>self := example_self\<lparr>sasa_positions := []\<rparr>\<rparr>) ! 6)
   \<and> writes (events_of (exec_lammps_iterations example_constants example_env 0 (-10) (-2))
         (example_world\<lparr>self := example_self\<lparr>sasa_positions := []\<rparr>\<rparr>)) =
       [(''./spec.xyz'',
         ''0'' @ [CHR 0x0A] @ ''atom'' @ [CHR 0x09] @ ''x'' @ [CHR 0x09] @ ''y''
            @ [CHR 0x09] @ ''z'' @ [CHR 0x09] @ ''res'' @ [CHR 0x09] @ ''etot/eV''
            @ [CHR 0x09] @ ''eint/eV'' @ [CHR 0x0A])]
   \<and> dispatched (events_of (exec_lammps_iterations example_constants example_env 0 (-10) (-2))
         (example_world\<lparr>self := example_self\<lparr>sasa_positions := []\<rparr>\<rparr>)) = []
   \<and> files (snd (exec_lammps_iterations example_constants example_env 0 (-10) (-2)
         (example_world\<lparr>self := example_self\<lparr>sasa_positions := []\<rparr>\<rparr>))) ''./spec.xyz'' =
       Some (''0'' @ [CHR 0x0A] @ ''atom'' @ [CHR 0x09] @ ''x'' @ [CHR 0x09] @ ''y''
            @ [CHR 0x09] @ ''z'' @ [CHR 0x09] @ ''res'' @ [CHR 0x09] @ ''etot/eV''
            @ [CHR 0x09] @ ''eint/eV'' @ [CHR 0x0A])
   \<and> writes (events_of (exec_lammps_iterations example_constants example_env 1203 (-10) (-2))
         example_world) =
       [(''./spec.xyz'',
         ''1203'' @ [CHR 0x0A] @ ''atom'' @ [CHR 0x09] @ ''x'' @ [CHR 0x09] @ ''y''
            @ [CHR 0x09] @ ''z'' @ [CHR 0x09] @ ''res'' @ [CHR 0x09] @ ''etot/eV''
            @ [CHR 0x09] @ ''eint/eV'' @ [CHR 0x0A])]
   \<and> int_of_str ''1203'' = 1203
   \<and> length (dispatched (events_of
         (exec_lammps_iterations example_constants example_env 1203 (-10) (-2)) example_world))
       = 2"
  using header_written_once_before_dispatch [of example_constants example_env 0 "-10" "-2"
      "example_world\<lparr>self := example_self\<lparr>sasa_positions := []\<rparr>\<rparr>"]
    header_written_once_before_dispatch [of example_constants example_env 1203 "-10" "-2"
      example_world]
  by (simp add: example_path example_simps str_nat_zero str_nat_1203 exec_events pool_events_def
      path_join_def example_self_def Sasa_init_def example_constants_def
      exec_tasks_def exec_rotations_def length_run_iterable add_column1_def np_zeros4_def)

section \<open>The driver\<close>

lemma exec_apply_trace:
  "exec_lammps_iterations c env n e_mol e_prob w =
     (map_sum id (\<lambda>_. 0) (pool_result env),
      w\<lparr>self := (self w)\<lparr>rotations := exec_rotations env n\<rparr>,
        trace := trace w @ exec_trace c env n e_mol e_prob (self w),
        files := (files w)(path_join (path (self w)) (SPEC c) \<mapsto> header n)\<rparr>)"
  by (simp add: exec_apply exec_trace_def)

lemma pre_calc_apply_trace:
  "pre_calc c env pid w =
     (pre_calc_result c env pid (self w),
      w\<lparr>trace := trace w @ Subprocess_run (baseline_cmd c (self w))
                   # pre_calc_tail c env pid (self w)\<rparr>)"
  by (simp add: pre_calc_apply pre_calc_result_def pre_calc_tail_def Let_def
      split: option.splits)

lemma process_events:
  "events_of (process c env) w =
     [Call ''gro2lammps.convert'', Call ''_check_files'', Call ''_write_params_file'',
      Call ''_write_params_file'', Subprocess_run (baseline_cmd c (self w))] @
     pre_calc_tail c env (ext_getpid env) (self w) @
     (case pre_calc_result c env (ext_getpid env) (self w) of
        Inl e \<Rightarrow> []
      | Inr (e_mol, e_prob) \<Rightarrow>
          [Call ''_convert_data_file'', Call ''_create_sasa_xyz'', Call ''_neighbor_finder''] @
          exec_trace c env (length (ext_create_sasa_xyz env)) e_mol e_prob
            (with_geometry env (self w)) @
          (case pool_result env of Inl e \<Rightarrow> [] | Inr u \<Rightarrow> postprocessing_calls))"
  by (simp add: events_of_def process_def bnd_apply pre_calc_apply_trace exec_apply_trace
      with_geometry_def postprocessing_calls_def split: sum.splits prod.splits)

lemma no_dispatch_pre_calc_tail: "e \<in> set (pre_calc_tail c env pid s) \<Longrightarrow> \<not> is_dispatch e"
  by (auto simp: pre_calc_tail_def Let_def split: option.splits if_splits)

lemma pre_calc_tail_read:
  "pre_calc_result c env pid s = Inr v \<Longrightarrow>
   v = ext_read_last_two env
   \<and> (\<exists>B. pre_calc_tail c env pid s = B @ [Read_last_two] \<and> (\<forall>e \<in> set B. \<not> is_dispatch e))"
  by (auto simp: pre_calc_tail_def pre_calc_result_def Let_def split: option.splits if_splits)

lemma dispatched_none: "(\<forall>e \<in> set es. \<not> is_dispatch e) \<Longrightarrow> dispatched es = []"
proof (induction es)
  case Nil
  then show ?case by simp
next
  case (Cons e es)
  then show ?case by (cases e) simp_all
qed

lemma dispatched_exec_trace [simp]:
  "dispatched (exec_trace c env n e_mol e_prob s) = exec_tasks c env n e_mol e_prob s"
  by (simp add: exec_trace_def)

lemma dispatched_postprocessing [simp]: "dispatched postprocessing_calls = []"
  by (simp add: postprocessing_calls_def)

lemma exec_tasks_energies:
  "t \<in> set (exec_tasks c env n e_mol e_prob s) \<Longrightarrow> task_e_mol t = e_mol \<and> task_e_prob t = e_prob"
  by (auto simp: exec_tasks_def run_iterable_def)

lemma ordered_index:
  assumes ev: "ev = A @ Subprocess_run i # B @ Read_last_two # C"
    and A: "\<forall>e \<in> set A. \<not> is_dispatch e" and B: "\<forall>e \<in> set B. \<not> is_dispatch e"
  shows "\<forall>j < length ev. is_dispatch (ev ! j) \<longrightarrow>
           (\<exists>h k. h < k \<and> k < j \<and> ev ! h = Subprocess_run i \<and> ev ! k = Read_last_two)"
proof (intro allI impI)
  fix j assume j: "j < length ev" and disp: "is_dispatch (ev ! j)"
  let ?h = "length A" and ?k = "length A + 1 + length B"
  have h: "ev ! ?h = Subprocess_run i"
    by (simp add: ev)
  have k: "ev ! ?k = Read_last_two"
    using nth_append_length [of "A @ Subprocess_run i # B" Read_last_two C]
    by (simp add: ev)
  have "?k < j"
  proof (rule ccontr)
    assume "\<not> ?k < j"
    then consider "j < length A" | "j = length A" | "length A < j \<and> j < ?k" | "j = ?k"
      by linarith
    then show False
    proof cases
      case 1
      with A disp show False by (simp add: ev nth_append)
    next
      case 2
      with disp h show False by simp
    next
      case 3
      then have "ev ! j = B ! (j - length A - 1)"
        by (auto simp: ev nth_append nth_Cons')
      moreover from 3 have "j - length A - 1 < length B" by linarith
      ultimately show False using B disp by (metis nth_mem)
    next
      case 4
      with disp k show False by simp
    qed
  qed
  then show "\<exists>h k. h < k \<and> k < j \<and> ev ! h = Subprocess_run i \<and> ev ! k = Read_last_two"
    using h k by (intro exI [of _ ?h] exI [of _ ?k]) simp
qed

lemma unordered_index:
  assumes "\<forall>e \<in> set ev. \<not> is_dispatch e"
  shows "\<forall>j < length ev. is_dispatch (ev ! j) \<longrightarrow> P j"
  using assms by (metis nth_mem)

lemma example_process_prefix:
  "take 6 (events_of (process example_constants example_env) example_world) =
     [Call ''gro2lammps.convert'', Call ''_check_files'', Call ''_write_params_file'',
      Call ''_write_params_file'',
      Subprocess_run (baseline_cmd example_constants example_self), Read_last_two]"
  by (simp add: process_events pre_calc_tail_def pre_calc_result_def example_simps
      example_env_def evaluator_ok_def)

lemma example_process_dispatch:
  "is_dispatch (events_of (process example_constants example_env) example_world ! 15)
   \<and> length (events_of (process example_constants example_env) example_world) = 24"
  by (simp add: process_events pre_calc_tail_def pre_calc_result_def example_simps
      example_env_def evaluator_ok_def exec_trace_def pool_events_def pool_result_def
      postprocessing_calls_def with_geometry_def exec_tasks_def example_self_def Sasa_init_def)

text \<open>
  Claim C9. In every run of \<open>_process\<close>, whatever the environment answers, each
  submission of tasks to the pool comes after the baseline evaluator call and after the
  reading of the two baseline energies that follows it; the parent hands no task to a
  worker before \<open>starmap\<close> is called. Every dispatched task carries the two energies
  that were read. When the baseline computation raises, nothing is dispatched.
\<close>

theorem baseline_before_dispatch:
  "(\<forall>j < length (events_of (process c env) w).
      is_dispatch (events_of (process c env) w ! j) \<longrightarrow>
      (\<exists>h k. h < k \<and> k < j
         \<and> events_of (process c env) w ! h = Subprocess_run (baseline_cmd c (self w))
         \<and> events_of (process c env) w ! k = Read_last_two))
   \<and> (\<forall>t \<in> set (dispatched (events_of (process c env) w)).
        (task_e_mol t, task_e_prob t) = ext_read_last_two env)"
proof (cases "pre_calc_result c env (ext_getpid env) (self w)")
  case (Inl e)
  let ?ev = "events_of (process c env) w"
  have ev: "?ev = [Call ''gro2lammps.convert'', Call ''_check_files'',
      Call ''_write_params_file'', Call ''_write_params_file'',
      Subprocess_run (baseline_cmd c (self w))] @ pre_calc_tail c env (ext_getpid env) (self w)"
    by (simp add: process_events Inl)
  have none: "\<forall>e \<in> set ?ev. \<not> is_dispatch e"
    unfolding ev using no_dispatch_pre_calc_tail by auto
  then have "dispatched ?ev = []"
    by (rule dispatched_none)
  with unordered_index [OF none] show ?thesis
    by simp
next
  case (Inr v)
  let ?ev = "events_of (process c env) w"
  from pre_calc_tail_read [OF Inr] obtain B where
    v: "v = ext_read_last_two env"
    and tail: "pre_calc_tail c env (ext_getpid env) (self w) = B @ [Read_last_two]"
    and B: "\<forall>e \<in> set B. \<not> is_dispatch e"
    by blast
  obtain e_mol e_prob where ve: "v = (e_mol, e_prob)"
    by (cases v)
  define C where "C = [Call ''_convert_data_file'', Call ''_create_sasa_xyz'',
      Call ''_neighbor_finder''] @
      exec_trace c env (length (ext_create_sasa_xyz env)) e_mol e_prob
        (with_geometry env (self w)) @
      (case pool_result env of Inl e \<Rightarrow> [] | Inr u \<Rightarrow> postprocessing_calls)"
  define A where "A = [Call ''gro2lammps.convert'', Call ''_check_files'',
      Call ''_write_params_file'', Call ''_write_params_file'']"
  have ev: "?ev = A @ Subprocess_run (baseline_cmd c (self w)) # B @ Read_last_two # C"
    by (simp add: process_events Inr ve tail A_def C_def)
  have A: "\<forall>e \<in> set A. \<not> is_dispatch e"
    by (simp add: A_def)
  have order: "\<forall>j < length ?ev. is_dispatch (?ev ! j) \<longrightarrow>
      (\<exists>h k. h < k \<and> k < j \<and> ?ev ! h = Subprocess_run (baseline_cmd c (self w))
         \<and> ?ev ! k = Read_last_two)"
    by (rule ordered_index [OF ev A B])
  have "dispatched ?ev = exec_tasks c env (length (ext_create_sasa_xyz env)) e_mol e_prob
      (with_geometry env (self w))"
    unfolding ev using dispatched_none [OF A] dispatched_none [OF B]
    by (simp add: C_def split: sum.splits)
  then have "\<forall>t \<in> set (dispatched ?ev). (task_e_mol t, task_e_prob t) = ext_read_last_two env"
    using v ve by (auto dest: exec_tasks_energies)
  with order show ?thesis
    by blast
qed

theorem baseline_before_dispatch_witness:
  "15 < length (events_of (process example_constants example_env) example_world)
   \<and> is_dispatch (events_of (process example_constants example_env) example_world ! 15)
   \<and> events_of (process example_constants example_env) example_world ! 4 =
       Subprocess_run (baseline_cmd example_constants (self example_world))
   \<and> events_of (process example_constants example_env) example_world ! 5 = Read_last_two
   \<and> dispatched (events_of (process example_constants example_env) example_world) \<noteq> []
   \<and> (task_e_mol (dispatched (events_of (process example_constants example_env) example_world) ! 0),
       task_e_prob (dispatched (events_of (process example_constants example_env) example_world) ! 0))
       = ext_read_last_two example_env"
proof -
  let ?ev = "events_of (process example_constants example_env) example_world"
  have d: "15 < length ?ev \<and> is_dispatch (?ev ! 15)"
    by (simp add: example_process_dispatch)
  have ne: "dispatched ?ev \<noteq> []"
    by (simp add: process_events pre_calc_tail_def pre_calc_result_def example_simps
      example_env_def evaluator_ok_def pool_result_def dispatched_exec_trace
      exec_tasks_def exec_rotations_def with_geometry_def run_iterable_def
      add_column1_def np_zeros4_def numeral_2_eq_2)
  then have m: "dispatched ?ev ! 0 \<in> set (dispatched ?ev)"
    by simp
  have "?ev ! 4 = take 6 ?ev ! 4" and "?ev ! 5 = take 6 ?ev ! 5"
    by simp_all
  then have p: "?ev ! 4 = Subprocess_run (baseline_cmd example_constants (self example_world))
      \<and> ?ev ! 5 = Read_last_two"
    by (simp add: example_process_prefix example_simps)
  from baseline_before_dispatch [of example_constants example_env example_world] d m ne p
  show ?thesis
    by blast
qed

section \<open>A failed task, as one process shows it\<close>

text \<open>
  Which queued tasks the pool still starts after a worker has signalled the parent, and
  how many evaluator processes complete their record, is decided by the interleaving of
  the worker processes and by the delivery of the signal; the theory describes each
  process alone. What one process shows: a call of \<open>_run_lmp\<close> makes one evaluator call
  and never a second one; a worker whose evaluator fails with decodable output prints it,
  signals the parent and returns \<open>0\<close> (the print and the signal are taken to succeed);
  and a parent whose \<open>starmap\<close> is interrupted and whose pool is terminated without a
  further interrupt goes on to the postprocessing and returns \<open>0\<close>.
\<close>

lemma run_lmp_one_invocation:
  "invocations (events_of (run_lmp c env pid infile ps rt an rs em ep) w) =
     [cmd c (self w) infile ps rt an rs em ep]"
  by (simp add: run_lmp_apply Let_def events_of_def split: option.splits)

lemma run_lmp_failure_in_worker:
  assumes "returncode (ext_evaluator env (cmd c (self w) infile ps rt an rs em ep)) \<noteq> 0"
    and "bytes_decode (stdout (ext_evaluator env (cmd c (self w) infile ps rt an rs em ep)))
           = Some msg"
    and "pid \<noteq> parent_pid (self w)"
  shows "run_lmp c env pid infile ps rt an rs em ep w =
           (Inr 0,
            w\<lparr>trace := trace w @
               [Subprocess_run (cmd c (self w) infile ps rt an rs em ep), Print msg,
                Kill (parent_pid (self w)) SIGINT]\<rparr>)"
  using assms by (auto simp: run_lmp_apply Let_def)

lemma run_lmp_failure_in_worker_example:
  "returncode (ext_evaluator (example_env\<lparr>ext_evaluator := evaluator_failing\<rparr>)
      (cmd example_constants (self example_world) ''in.template'' (1, 2, 3) (0, 1, 0, 0) 5 7
         (-10) (-2))) \<noteq> 0
   \<and> bytes_decode (stdout (ext_evaluator (example_env\<lparr>ext_evaluator := evaluator_failing\<rparr>)
      (cmd example_constants (self example_world) ''in.template'' (1, 2, 3) (0, 1, 0, 0) 5 7
         (-10) (-2)))) = Some [69, 82, 82]
   \<and> (101::nat) \<noteq> parent_pid (self example_world)
   \<and> result_of (run_lmp example_constants (example_env\<lparr>ext_evaluator := evaluator_failing\<rparr>)
        101 ''in.template'' (1, 2, 3) (0, 1, 0, 0) 5 7 (-10) (-2)) example_world = Inr 0
   \<and> events_of (run_lmp example_constants (example_env\<lparr>ext_evaluator := evaluator_failing\<rparr>)
        101 ''in.template'' (1, 2, 3) (0, 1, 0, 0) 5 7 (-10) (-2)) example_world =
       [Subprocess_run (cmd example_constants example_self ''in.template'' (1, 2, 3)
          (0, 1, 0, 0) 5 7 (-10) (-2)),
        Print [69, 82, 82], Kill 100 SIGINT]"
  using run_lmp_failure_in_worker [of "example_env\<lparr>ext_evaluator := evaluator_failing\<rparr>"
      example_constants example_world "''in.template''" "(1, 2, 3)" "(0, 1, 0, 0)" 5 7
      "-10" "-2" "[69, 82, 82]" 101]
  by (simp add: evaluator_failing_def example_simps result_of_def events_of_def)

lemma process_result:
  "result_of (process c env) w =
     (case pre_calc_result c env (ext_getpid env) (self w) of
        Inl e \<Rightarrow> Inl e
      | Inr v \<Rightarrow> map_sum id (\<lambda>_. 0) (pool_result env))"
  by (cases "pool_result env")
    (auto simp: result_of_def process_def bnd_apply pre_calc_apply_trace exec_apply_trace
      split: sum.splits prod.splits)

lemma process_after_interrupt:
  assumes "returncode (ext_evaluator env (baseline_cmd c (self w))) = 0"
    and "ext_starmap_raises env = Some KeyboardInterrupt"
    and "ext_terminate_raises env = None" and "ext_exit_raises env = None"
  shows "result_of (process c env) w = Inr 0
       \<and> (\<exists>es. events_of (process c env) w =
             es @ [Pool_terminate, Pool_exit] @ postprocessing_calls)"
proof -
  have r: "pre_calc_result c env (ext_getpid env) (self w) = Inr (ext_read_last_two env)"
    using assms(1) by (simp add: pre_calc_result_def Let_def)
  have p: "pool_result env = Inr ()" "pool_events env = [Pool_terminate, Pool_exit]"
    using assms(2-4) by (simp_all add: pool_result_def pool_events_def)
  obtain e_mol e_prob where v: "ext_read_last_two env = (e_mol, e_prob)"
    by (cases "ext_read_last_two env")
  have "result_of (process c env) w = Inr 0"
    by (simp add: process_result r p)
  moreover have "\<exists>es. events_of (process c env) w =
      es @ [Pool_terminate, Pool_exit] @ postprocessing_calls"
    by (simp add: process_events r v p exec_trace_def)
  ultimately show ?thesis
    by blast
qed

end
